theory Spec2Isabelle
  imports Main "HOL-Library.Char_ord" "HOL-Library.List_Lexorder" "HOL-Library.AList"
begin

section \<open>Python values and the operations apiscraper.py applies to them\<close>

text \<open>
  The fields the Tesla API reports are loosely typed JSON scalars. The embedding keeps
  the cases the program distinguishes: \<^verbatim>\<open>None\<close>, booleans, numbers and strings.
  Numbers are integers (no claim depends on a fractional part); nested objects such as
  \<^verbatim>\<open>media_state\<close> are not modelled.
\<close>

datatype pyval = PNone | PBool bool | PInt int | PStr string

text \<open>
  The exceptions that can leave a function. \<^verbatim>\<open>ContinuePollingError\<close> and
  \<^verbatim>\<open>HTTPError\<close> come from the request to the vehicle and are the two
  \<^verbatim>\<open>check_states\<close> catches; the others are Python's own and are caught nowhere.
\<close>

datatype exn =
  ContinuePollingError | HTTPError | KeyError | TypeError | AttributeError | ValueError
  | OSError | OverflowError

definition py_bind :: "exn + 'a \<Rightarrow> ('a \<Rightarrow> exn + 'b) \<Rightarrow> exn + 'b" where
  "py_bind r f = (case r of Inl e \<Rightarrow> Inl e | Inr x \<Rightarrow> f x)"

text \<open>A boolean counts as the number 0 or 1 in comparisons and arithmetic.\<close>

fun py_num :: "pyval \<Rightarrow> int option" where
  "py_num (PInt n) = Some n"
| "py_num (PBool b) = Some (if b then 1 else 0)"
| "py_num PNone = None"
| "py_num (PStr s) = None"

text \<open>\<^verbatim>\<open>a == b\<close>: never raises; values of unrelated types are unequal.\<close>

fun py_eq :: "pyval \<Rightarrow> pyval \<Rightarrow> bool" where
  "py_eq PNone PNone = True"
| "py_eq (PStr s) (PStr t) = (s = t)"
| "py_eq PNone b = False"
| "py_eq a PNone = False"
| "py_eq (PStr s) b = False"
| "py_eq a (PStr t) = False"
| "py_eq a b = (py_num a = py_num b)"

text \<open>Truth value of a value in a condition (\<^verbatim>\<open>if x\<close>, \<^verbatim>\<open>not x\<close>, \<^verbatim>\<open>x or y\<close>).\<close>

fun py_truthy :: "pyval \<Rightarrow> bool" where
  "py_truthy PNone = False"
| "py_truthy (PBool b) = b"
| "py_truthy (PInt n) = (n \<noteq> 0)"
| "py_truthy (PStr s) = (s \<noteq> [])"

text \<open>\<^verbatim>\<open>x > n\<close> and \<^verbatim>\<open>x < n\<close> against a number: TypeError for None and strings.\<close>

definition py_gt :: "pyval \<Rightarrow> int \<Rightarrow> exn + bool" where
  "py_gt x n = (case py_num x of None \<Rightarrow> Inl TypeError | Some v \<Rightarrow> Inr (v > n))"

definition py_lt :: "pyval \<Rightarrow> int \<Rightarrow> exn + bool" where
  "py_lt x n = (case py_num x of None \<Rightarrow> Inl TypeError | Some v \<Rightarrow> Inr (v < n))"

text \<open>\<^verbatim>\<open>str.lower\<close> on ASCII; any other value has no such method.\<close>

definition lower_char :: "char \<Rightarrow> char" where
  "lower_char c =
     (let n = (of_char c :: nat) in if 65 \<le> n \<and> n \<le> 90 then char_of (n + 32) else c)"

definition lower :: "string \<Rightarrow> string" where
  "lower s = map lower_char s"

definition py_lower :: "pyval \<Rightarrow> exn + string" where
  "py_lower x = (case x of PStr s \<Rightarrow> Inr (lower s) | _ \<Rightarrow> Inl AttributeError)"

text \<open>\<^verbatim>\<open>d.get(k, default)\<close> on a dictionary.\<close>

definition dict_get :: "(string \<rightharpoonup> pyval) \<Rightarrow> string \<Rightarrow> pyval \<Rightarrow> pyval" where
  "dict_get d k dflt = (case d k of None \<Rightarrow> dflt | Some v \<Rightarrow> v)"

section \<open>The monitor's state\<close>

text \<open>
  \<^verbatim>\<open>old_values\<close> maps each request (category) to the dictionary of its last stored
  fields. \<^verbatim>\<open>__init__\<close> creates an empty dictionary for each of the five requests.
\<close>

type_synonym store = "string \<Rightarrow> (string \<rightharpoonup> pyval)"

definition requests :: "string list" where
  "requests = [''charge_state'', ''climate_state'', ''drive_state'',
               ''gui_settings'', ''vehicle_state'']"

definition pollTimes :: "int list" where
  "pollTimes = [2, 5, 15, 30, 45, 60, 120, 120, 120, 120, 120, 120, 120, 120, 120, 120,
                2000, 120]"

definition a_ignore :: "string list" where
  "a_ignore = [''media_state'', ''software_update'', ''speed_limit_mode'']"

text \<open>
  \<^verbatim>\<open>a_validity_checks\<close>: per field, the condition on \<^verbatim>\<open>new_value\<close> that the
  program evaluates and the value it sets when the condition holds.
\<close>

definition a_validity_checks :: "(string \<times> (pyval \<Rightarrow> exn + bool) \<times> pyval) list" where
  "a_validity_checks = [(''charger_voltage'', (\<lambda>new_value. py_lt new_value 0), PInt 0)]"

text \<open>The options of config.py the modelled code reads.\<close>

record config =
  a_awake_poll_secs :: int
  a_maximum_sleep :: int
  a_allow_sleep :: int
  a_dry_run :: bool

text \<open>A point handed to \<^verbatim>\<open>influx_client.write_points\<close> (the tags are left out).\<close>

record point =
  p_measurement :: string
  p_fields :: "(string \<times> pyval) list"
  p_time :: int

record monitor =
  old_values :: store
  vehicle_state :: string
  vehicle_display_name :: string
  noChangesPollCount :: nat
  written :: "point list"

definition init_monitor :: monitor where
  "init_monitor = \<lparr> old_values = (\<lambda>r. Map.empty), vehicle_state = ''online'',
     vehicle_display_name = [], noChangesPollCount = 0, written = [] \<rparr>"

section \<open>ongoing_activity_status\<close>

text \<open>
  The classifier reads the stored values and the clock: \<open>now\<close> is the value of
  \<^verbatim>\<open>int(time.time())\<close> at the call. The function is a sequence of checks, each
  returning a label or falling through to the next; it is written here as one definition
  per check, last check first, so that each definition is the rest of the function from
  that check on.
\<close>

definition screen_status :: "store \<Rightarrow> exn + string" where
  "screen_status ov =
     (if \<not> (py_eq (dict_get (ov ''vehicle_state'') ''center_display_state'' (PInt 0)) (PInt 0)
             \<or> py_eq (dict_get (ov ''vehicle_state'') ''center_display_state'' (PInt 0)) (PInt 5))
      then
        (let cds = dict_get (ov ''vehicle_state'') ''center_display_state'' PNone in
         if py_eq cds (PInt 2) then Inr ''screen on (normal)''
         else if py_eq cds (PInt 3) then Inr ''screen on (charging)''
         else if py_eq cds (PInt 7) then Inr ''screen on (sentry)''
         else if py_eq cds (PInt 8) then Inr ''screen on (dog mode)''
         else Inr ''screen on'')
      else Inr ''idle'')"

definition conditioning_status :: "store \<Rightarrow> exn + string" where
  "conditioning_status ov =
     (if py_truthy (dict_get (ov ''climate_state'') ''is_climate_on'' (PBool False))
      then Inr ''conditioning''
      else screen_status ov)"

definition scheduled_status :: "int \<Rightarrow> store \<Rightarrow> exn + string" where
  "scheduled_status now ov =
     (if py_truthy (dict_get (ov ''charge_state'') ''scheduled_charging_pending'' (PBool False))
      then
        (case py_num (dict_get (ov ''charge_state'') ''scheduled_charging_start_time'' (PInt 0)) of
           None \<Rightarrow> Inl TypeError
         | Some scheduled_time \<Rightarrow>
             if \<bar>scheduled_time - now\<bar> \<le> 2 then Inr ''charging''
             else conditioning_status ov)
      else conditioning_status ov)"

definition charging_status :: "int \<Rightarrow> store \<Rightarrow> exn + string" where
  "charging_status now ov =
     py_bind (py_lower (dict_get (ov ''charge_state'') ''charging_state'' (PStr []))) (\<lambda>cs.
       if cs \<in> set [''charging'', ''starting''] then Inr ''charging''
       else
         py_bind (py_gt (dict_get (ov ''charge_state'') ''charger_voltage'' (PInt 0)) 10) (\<lambda>v.
           if v then
             py_bind (py_gt (dict_get (ov ''charge_state'') ''charger_actual_current'' (PInt 0)) 0)
               (\<lambda>c. if c then Inr ''charging'' else scheduled_status now ov)
           else scheduled_status now ov))"

definition ongoing_activity_status :: "int \<Rightarrow> store \<Rightarrow> exn + string" where
  "ongoing_activity_status now ov =
     (let shift = dict_get (ov ''drive_state'') ''shift_state'' (PStr []);
          old_speed = (let s = dict_get (ov ''drive_state'') ''speed'' (PInt 0)
                       in if py_truthy s then s else PInt 0)
      in
        if py_eq shift (PStr ''R'') \<or> py_eq shift (PStr ''D'') \<or> py_eq shift (PStr ''N'')
        then Inr ''driving''
        else
          py_bind (py_gt old_speed 0) (\<lambda>moving.
            if moving then Inr ''driving'' else charging_status now ov))"

section \<open>request_state_group\<close>

text \<open>
  What \<^verbatim>\<open>self.vehicle.get('vehicle_data')\<close> delivers: the vehicle's state and name and,
  per request, a dictionary of fields with its \<^verbatim>\<open>timestamp\<close>. The API reports the
  timestamp as an integer, and the embedding fixes that type; the other entries are an
  association list.
\<close>

record group =
  g_timestamp :: int
  g_fields :: "(string \<times> pyval) list"

record response =
  r_state :: string
  r_display_name :: string
  r_groups :: "(string \<times> group) list"

text \<open>The dictionary \<^verbatim>\<open>result\<close> of a group, with its \<^verbatim>\<open>timestamp\<close> entry.\<close>

definition result_dict :: "group \<Rightarrow> (string \<times> pyval) list" where
  "result_dict g = (''timestamp'', PInt (g_timestamp g)) # g_fields g"

text \<open>\<^verbatim>\<open>sorted(result)\<close>: the keys of the dictionary in ascending order.\<close>

definition sorted_keys :: "(string \<times> pyval) list \<Rightarrow> string list" where
  "sorted_keys d = sort (remdups (map fst d))"

definition update_vehicle_from_response :: "response \<Rightarrow> monitor \<Rightarrow> monitor" where
  "update_vehicle_from_response r m =
     m\<lparr> vehicle_state := r_state r, vehicle_display_name := r_display_name r \<rparr>"

text \<open>
  The body of the loop over the elements of one group, for one element that is not in the
  tuple of skipped names. \<open>Skipped\<close> is the \<^verbatim>\<open>continue\<close>; \<open>Stored v row\<close> is the value
  stored in \<^verbatim>\<open>old_values\<close> and the row added to the fields to be written, if any.
\<close>

datatype outcome = Skipped | Stored pyval "pyval option"

definition validity_check :: "string \<Rightarrow> pyval \<Rightarrow> exn + pyval" where
  "validity_check element new_value =
     (case map_of a_validity_checks element of
        None \<Rightarrow> Inr new_value
      | Some (violated, set_value) \<Rightarrow>
          py_bind (violated new_value) (\<lambda>b. Inr (if b then set_value else new_value)))"

definition process_element :: "string \<Rightarrow> pyval \<Rightarrow> pyval \<Rightarrow> exn + outcome" where
  "process_element element old_value new_value0 =
     (if element = ''vehicle_name'' \<and> \<not> py_truthy new_value0 then Inr Skipped
      else
        (let new_value =
           (if element = ''speed'' \<and> py_eq new_value0 PNone then PInt 0
            else if \<not> py_eq new_value0 old_value \<and> py_eq new_value0 PNone
                    \<and> element \<in> set [''shift_state'']
            then old_value
            else new_value0)
         in
           if new_value \<noteq> PNone then
             (if element \<notin> set a_ignore then
                py_bind (validity_check element new_value) (\<lambda>v. Inr (Stored v (Some v)))
              else Inr (Stored new_value None))
           else Inr (Stored new_value None)))"

definition skipped_elements :: "string list" where
  "skipped_elements = [''timestamp'', ''gps_as_of'', ''left_temp_direction'',
                       ''right_temp_direction'', ''charge_port_latch'']"

text \<open>
  The loop \<^verbatim>\<open>for element in sorted(result)\<close>: \<open>old\<close> is \<^verbatim>\<open>self.old_values[request]\<close>
  and \<open>flds\<close> is \<^verbatim>\<open>json_body['fields']\<close>. The elevation thread it may start has no
  effect on the monitor and is left out.
\<close>

fun process_elements ::
  "(string \<times> pyval) list \<Rightarrow> string list \<Rightarrow> (string \<rightharpoonup> pyval) \<Rightarrow> (string \<times> pyval) list
     \<Rightarrow> exn + ((string \<rightharpoonup> pyval) \<times> (string \<times> pyval) list)" where
  "process_elements result [] old flds = Inr (old, flds)"
| "process_elements result (element # rest) old flds =
     (if element \<notin> set skipped_elements then
        (case map_of result element of
           None \<Rightarrow> Inl KeyError
         | Some new_value \<Rightarrow>
             py_bind (process_element element (dict_get old element (PStr [])) new_value)
               (\<lambda>out. case out of
                  Skipped \<Rightarrow> process_elements result rest old flds
                | Stored v row \<Rightarrow>
                    process_elements result rest (old(element \<mapsto> v))
                      (case row of None \<Rightarrow> flds | Some w \<Rightarrow> AList.update element w flds)))
      else process_elements result rest old flds)"

text \<open>
  The loop \<^verbatim>\<open>for request in self.requests\<close>. A group whose timestamp is the stored one
  ends the loop (\<^verbatim>\<open>break\<close>). Otherwise the timestamp is stored, the elements are
  processed and, unless \<^verbatim>\<open>a_dry_run\<close> is set or no field was collected, the point is
  written.
\<close>

fun process_requests :: "config \<Rightarrow> response \<Rightarrow> string list \<Rightarrow> monitor \<Rightarrow> exn + monitor" where
  "process_requests cfg r [] m = Inr m"
| "process_requests cfg r (request # rest) m =
     (case map_of (r_groups r) request of
        None \<Rightarrow> Inl KeyError
      | Some result \<Rightarrow>
          if py_eq (dict_get (old_values m request) ''timestamp'' (PStr []))
                   (PInt (g_timestamp result))
          then Inr m
          else
            py_bind
              (process_elements (result_dict result) (sorted_keys (result_dict result))
                 ((old_values m request)(''timestamp'' \<mapsto> PInt (g_timestamp result))) [])
              (\<lambda>(old, flds).
                 process_requests cfg r rest
                   (m\<lparr> old_values := (old_values m)(request := old),
                       written :=
                         (if \<not> a_dry_run cfg \<and> length flds > 0
                          then written m @ [\<lparr> p_measurement = request, p_fields = flds,
                                               p_time = g_timestamp result * 1000000 \<rparr>]
                          else written m) \<rparr>)))"

text \<open>
  \<open>vehicle_data\<close> is the outcome of the request to the vehicle: the response, or the
  exception the request raised. The result is the returned boolean and the monitor.
\<close>

definition request_state_group ::
  "config \<Rightarrow> int \<Rightarrow> exn + response \<Rightarrow> monitor \<Rightarrow> exn + (bool \<times> monitor)" where
  "request_state_group cfg now vehicle_data m =
     py_bind vehicle_data (\<lambda>r.
       py_bind (process_requests cfg r requests (update_vehicle_from_response r m)) (\<lambda>m'.
         py_bind (ongoing_activity_status now (old_values m')) (\<lambda>current_state.
           Inr (lower current_state \<noteq> ''idle'', m'))))"

section \<open>check_states\<close>

text \<open>
  The part of \<^verbatim>\<open>check_states\<close> after the \<^verbatim>\<open>try\<close> statement: the interval is chosen
  from the stored charging state, \<^verbatim>\<open>any_change\<close> and the count of polls without changes.
\<close>

definition poll_decision :: "config \<Rightarrow> int \<Rightarrow> bool \<Rightarrow> monitor \<Rightarrow> exn + (int \<times> monitor)" where
  "poll_decision cfg interval0 any_change m =
     (let interval = (if interval0 = 0 then a_awake_poll_secs cfg else interval0) in
      py_bind (py_lower (dict_get (old_values m ''charge_state'') ''charging_state'' (PStr [])))
        (\<lambda>cs.
           if cs = ''charging'' then
             (if py_eq (dict_get (old_values m ''charge_state'') ''fast_charger_present'' (PStr []))
                       (PStr ''true'')
              then Inr (5, m)
              else Inr (15, m))
           else if any_change then
             Inr (a_awake_poll_secs cfg, m\<lparr> noChangesPollCount := 0 \<rparr>)
           else
             (let c = noChangesPollCount m + 1 in
              Inr (if c - 1 < length pollTimes then pollTimes ! (c - 1)
                   else pollTimes ! (length pollTimes - 1),
                   m\<lparr> noChangesPollCount := c \<rparr>))))"

text \<open>
  \<^verbatim>\<open>check_states(interval)\<close>: the \<^verbatim>\<open>try\<close> statement with its two handlers, then
  \<open>poll_decision\<close>. An exception other than the two that are caught leaves the function.
\<close>

definition check_states ::
  "config \<Rightarrow> int \<Rightarrow> exn + response \<Rightarrow> int \<Rightarrow> monitor \<Rightarrow> exn + (int \<times> monitor)" where
  "check_states cfg now vehicle_data interval m =
     (case request_state_group cfg now vehicle_data m of
        Inr (any_change, m') \<Rightarrow>
          (let shift = dict_get (old_values m' ''drive_state'') ''shift_state'' (PStr []) in
           if py_eq shift (PStr ''R'') \<or> py_eq shift (PStr ''D'')
           then poll_decision cfg (a_awake_poll_secs cfg) True m'
           else poll_decision cfg interval any_change m')
      | Inl ContinuePollingError \<Rightarrow>
          poll_decision cfg interval False (m\<lparr> vehicle_state := ''asleep'' \<rparr>)
      | Inl HTTPError \<Rightarrow>
          (if a_allow_sleep cfg = 1 then Inr (interval, m) else Inr (- 1, m))
      | Inl e \<Rightarrow> Inl e)"

section \<open>calculate_next_wakeup and the end of the main loop\<close>

text \<open>
  \<^verbatim>\<open>time.ctime(secs)\<close>, of which only the failure matters here (the text goes to the
  log): OverflowError outside the range of a 64-bit \<^verbatim>\<open>time_t\<close>, OSError when the
  year does not fit a C \<^verbatim>\<open>int\<close>. The two bounds of the year are those of glibc on
  64-bit Linux, in UTC.
\<close>

definition ctime_first :: int where
  "ctime_first = - 67768040609740800"

definition ctime_last :: int where
  "ctime_last = 67768036191676799"

definition time_ctime :: "int \<Rightarrow> exn + unit" where
  "time_ctime secs =
     (if secs < - (2 ^ 63) \<or> 2 ^ 63 \<le> secs then Inl OverflowError
      else if secs < ctime_first \<or> ctime_last < secs then Inl OSError
      else Inr ())"

text \<open>
  \<^verbatim>\<open>calculate_next_wakeup(current_wake_up_time, state_monitor)\<close> at clock value \<open>now\<close>.
  The first argument decides whether the line with \<^verbatim>\<open>time.ctime(wakeup_time)\<close> is
  logged.
\<close>

definition calculate_next_wakeup :: "config \<Rightarrow> int \<Rightarrow> int \<Rightarrow> store \<Rightarrow> exn + int" where
  "calculate_next_wakeup cfg now current_wake_up_time ov =
     (let wakeup_time = now + a_maximum_sleep cfg in
      if py_truthy (dict_get (ov ''charge_state'') ''scheduled_charging_pending'' (PBool False))
      then
        (case py_num (dict_get (ov ''charge_state'') ''scheduled_charging_start_time'' (PInt 0)) of
           None \<Rightarrow> Inl TypeError
         | Some scheduled_charge_time \<Rightarrow>
             if scheduled_charge_time > 0 \<and> scheduled_charge_time < wakeup_time
             then
               (if scheduled_charge_time \<noteq> current_wake_up_time
                then py_bind (time_ctime scheduled_charge_time)
                       (\<lambda>logged. Inr scheduled_charge_time)
                else Inr scheduled_charge_time)
             else Inr wakeup_time)
      else Inr wakeup_time)"

text \<open>
  The last statements of the main loop. The clock is read twice, once in the test
  (\<open>now1\<close>) and once in the assignment (\<open>now2\<close>). \<^verbatim>\<open>time.sleep\<close> raises ValueError
  for a negative duration. The result is the duration slept, or \<open>None\<close> when
  \<^verbatim>\<open>poll_interval\<close> is \<^verbatim>\<open>None\<close> and nothing is slept.
\<close>

definition clamp_poll_interval :: "int \<Rightarrow> int \<Rightarrow> int \<Rightarrow> int \<Rightarrow> int" where
  "clamp_poll_interval now1 now2 next_wakeup poll_interval =
     (if now1 + poll_interval > next_wakeup then next_wakeup - now2 else poll_interval)"

definition time_sleep :: "int \<Rightarrow> exn + int" where
  "time_sleep secs = (if secs < 0 then Inl ValueError else Inr secs)"

definition sleep_as_needed :: "int \<Rightarrow> int \<Rightarrow> int \<Rightarrow> int option \<Rightarrow> exn + int option" where
  "sleep_as_needed now1 now2 next_wakeup poll_interval =
     (case poll_interval of
        None \<Rightarrow> Inr None
      | Some i \<Rightarrow>
          py_bind (time_sleep (clamp_poll_interval now1 now2 next_wakeup i))
            (\<lambda>d. Inr (Some d)))"

section \<open>Notions used in the statements\<close>

text \<open>The stored values the scheduler's decisions read, named as the source reads them.\<close>

definition shift_state :: "store \<Rightarrow> pyval" where
  "shift_state ov = dict_get (ov ''drive_state'') ''shift_state'' (PStr [])"

definition reverse_or_drive :: "store \<Rightarrow> bool" where
  "reverse_or_drive ov =
     (py_eq (shift_state ov) (PStr ''R'') \<or> py_eq (shift_state ov) (PStr ''D''))"

definition charging_state_lower :: "store \<Rightarrow> exn + string" where
  "charging_state_lower ov =
     py_lower (dict_get (ov ''charge_state'') ''charging_state'' (PStr []))"

definition fast_charger_present :: "store \<Rightarrow> bool" where
  "fast_charger_present ov =
     py_eq (dict_get (ov ''charge_state'') ''fast_charger_present'' (PStr [])) (PStr ''true'')"

text \<open>The fast charger flag is set: the stored value counts as true in a condition.\<close>

definition fast_charger_flag :: "store \<Rightarrow> bool" where
  "fast_charger_flag ov =
     py_truthy (dict_get (ov ''charge_state'') ''fast_charger_present'' (PStr []))"

definition ladder :: "nat \<Rightarrow> int" where
  "ladder k = (if k < length pollTimes then pollTimes ! k
               else pollTimes ! (length pollTimes - 1))"

definition scheduled_charging_pending :: "store \<Rightarrow> bool" where
  "scheduled_charging_pending ov =
     py_truthy (dict_get (ov ''charge_state'') ''scheduled_charging_pending'' (PBool False))"

definition scheduled_charging_start_time :: "store \<Rightarrow> pyval" where
  "scheduled_charging_start_time ov =
     dict_get (ov ''charge_state'') ''scheduled_charging_start_time'' (PInt 0)"

definition activity_labels :: "string list" where
  "activity_labels = [''driving'', ''charging'', ''conditioning'', ''screen on (normal)'',
     ''screen on (charging)'', ''screen on (sentry)'', ''screen on (dog mode)'',
     ''screen on'', ''idle'']"

text \<open>The monitor \<^verbatim>\<open>request_state_group\<close> leaves behind when it returns.\<close>

definition updated_monitor :: "config \<Rightarrow> int \<Rightarrow> exn + response \<Rightarrow> monitor \<Rightarrow> monitor" where
  "updated_monitor cfg now vehicle_data m = snd (projr (request_state_group cfg now vehicle_data m))"

text \<open>
  The main loop calls \<^verbatim>\<open>check_states\<close> once per cycle. A cycle is the clock value,
  the outcome of the request to the vehicle and the interval the main loop passes in;
  \<open>run_cycles\<close> threads the monitor through the cycles and collects the intervals
  returned. A cycle is unchanged when \<^verbatim>\<open>any_change\<close> is False where the interval is
  chosen and the stored charging state is not \<^verbatim>\<open>charging\<close>.
\<close>

type_synonym cycle = "int \<times> (exn + response) \<times> int"

fun run_cycles :: "config \<Rightarrow> cycle list \<Rightarrow> monitor \<Rightarrow> exn + (int list \<times> monitor)" where
  "run_cycles cfg [] m = Inr ([], m)"
| "run_cycles cfg ((now, vehicle_data, interval) # rest) m =
     py_bind (check_states cfg now vehicle_data interval m) (\<lambda>(i, m').
       py_bind (run_cycles cfg rest m') (\<lambda>(intervals, m''). Inr (i # intervals, m'')))"

definition not_charging :: "store \<Rightarrow> bool" where
  "not_charging ov = (case charging_state_lower ov of Inr cs \<Rightarrow> cs \<noteq> ''charging'' | Inl e \<Rightarrow> False)"

definition unchanged_cycle :: "config \<Rightarrow> cycle \<Rightarrow> monitor \<Rightarrow> bool" where
  "unchanged_cycle cfg c m =
     (case c of (now, vehicle_data, interval) \<Rightarrow>
        (case request_state_group cfg now vehicle_data m of
           Inr (any_change, m') \<Rightarrow> \<not> any_change
         | Inl e \<Rightarrow> e = ContinuePollingError \<and> not_charging (old_values m)))"

fun all_unchanged :: "config \<Rightarrow> cycle list \<Rightarrow> monitor \<Rightarrow> bool" where
  "all_unchanged cfg [] m = True"
| "all_unchanged cfg ((now, vehicle_data, interval) # rest) m =
     (unchanged_cycle cfg (now, vehicle_data, interval) m \<and>
      (case check_states cfg now vehicle_data interval m of
         Inr (i, m') \<Rightarrow> all_unchanged cfg rest m'
       | Inl e \<Rightarrow> False))"

definition monitor_after :: "config \<Rightarrow> cycle list \<Rightarrow> monitor \<Rightarrow> monitor" where
  "monitor_after cfg cycles m = snd (projr (run_cycles cfg cycles m))"

text \<open>
  The change of a field as section 4.1 of the specification words it, for comparison
  with what \<^verbatim>\<open>request_state_group\<close> returns: the corrected new value of a field
  that is neither skipped nor ignored differs from the stored one, in a group whose
  timestamp is not the stored one.
\<close>

definition spec_corrected_value :: "string \<Rightarrow> pyval \<Rightarrow> pyval \<Rightarrow> pyval" where
  "spec_corrected_value element old_value new_value =
     (let v = (if element = ''speed'' \<and> new_value = PNone then PInt 0
               else if new_value = PNone \<and> element \<in> set [''shift_state''] then old_value
               else new_value)
      in case map_of a_validity_checks element of
           None \<Rightarrow> v
         | Some (violated, set_value) \<Rightarrow> if violated v = Inr True then set_value else v)"

definition spec_field_changed :: "(string \<rightharpoonup> pyval) \<Rightarrow> string \<Rightarrow> pyval \<Rightarrow> bool" where
  "spec_field_changed old element new_value =
     (element \<notin> set skipped_elements \<and> element \<notin> set a_ignore \<and>
      (case old element of
         None \<Rightarrow> True
       | Some old_value \<Rightarrow>
           \<not> py_eq (spec_corrected_value element old_value new_value) old_value))"

definition spec_applyUpdate_changed :: "store \<Rightarrow> response \<Rightarrow> bool" where
  "spec_applyUpdate_changed ov r =
     list_ex (\<lambda>request.
        case map_of (r_groups r) request of
          None \<Rightarrow> False
        | Some g \<Rightarrow>
            ov request ''timestamp'' \<noteq> Some (PInt (g_timestamp g)) \<and>
            list_ex (\<lambda>(element, new_value). spec_field_changed (ov request) element new_value)
              (g_fields g))
       requests"

section \<open>Concrete inputs\<close>

text \<open>A store given by association lists, a configuration, and stores and responses
  on which the program is evaluated below.\<close>

definition alist_store :: "(string \<times> (string \<times> pyval) list) list \<Rightarrow> store" where
  "alist_store al = (\<lambda>request. case map_of al request of None \<Rightarrow> Map.empty | Some d \<Rightarrow> map_of d)"

definition ex_cfg :: config where
  "ex_cfg = \<lparr> a_awake_poll_secs = 2, a_maximum_sleep = 100, a_allow_sleep = 1, a_dry_run = False \<rparr>"

definition scheduled_store :: "int \<Rightarrow> store" where
  "scheduled_store t = alist_store [(''charge_state'',
     [(''scheduled_charging_pending'', PBool True), (''scheduled_charging_start_time'', PInt t)])]"

definition pending_without_time :: store where
  "pending_without_time = alist_store [(''charge_state'',
     [(''scheduled_charging_pending'', PBool True),
      (''scheduled_charging_start_time'', PNone)])]"

text \<open>
  A response whose groups carry the timestamp \<open>t\<close>, the charge state \<open>tc\<close>, with
  the given fields of the charge, drive and vehicle state.
\<close>

definition snapshot ::
  "int \<Rightarrow> int \<Rightarrow> (string \<times> pyval) list \<Rightarrow> (string \<times> pyval) list
     \<Rightarrow> (string \<times> pyval) list \<Rightarrow> response" where
  "snapshot tc t charge drive vehicle =
     \<lparr> r_state = ''online'', r_display_name = ''car'',
       r_groups = [(''charge_state'', \<lparr> g_timestamp = tc, g_fields = charge \<rparr>),
                   (''climate_state'', \<lparr> g_timestamp = t, g_fields = [] \<rparr>),
                   (''drive_state'', \<lparr> g_timestamp = t, g_fields = drive \<rparr>),
                   (''gui_settings'', \<lparr> g_timestamp = t, g_fields = [] \<rparr>),
                   (''vehicle_state'', \<lparr> g_timestamp = t, g_fields = vehicle \<rparr>)] \<rparr>"

definition driving_data :: "exn + response" where
  "driving_data = Inr (snapshot 1 1 [(''charging_state'', PStr ''Disconnected'')]
     [(''shift_state'', PStr ''D'')] [])"

definition driving_charging_data :: "exn + response" where
  "driving_charging_data = Inr (snapshot 1 1 [(''charging_state'', PStr ''Charging'')]
     [(''shift_state'', PStr ''D'')] [])"

definition starting_data :: "exn + response" where
  "starting_data = Inr (snapshot 1 1 [(''charging_state'', PStr ''Starting'')]
     [(''shift_state'', PStr ''P'')] [])"

definition charging_data :: "int \<Rightarrow> exn + response" where
  "charging_data t = Inr (snapshot t t
     [(''charging_state'', PStr ''Charging''), (''fast_charger_present'', PBool True)]
     [(''shift_state'', PStr ''P'')] [])"

definition slow_charging_data :: "exn + response" where
  "slow_charging_data = Inr (snapshot 1 1
     [(''charging_state'', PStr ''Charging''), (''fast_charger_present'', PBool False)]
     [(''shift_state'', PStr ''P'')] [])"

definition parked_data :: "int \<Rightarrow> exn + response" where
  "parked_data t = Inr (snapshot t t [(''charging_state'', PStr ''Complete'')]
     [(''shift_state'', PStr ''P'')] [(''odometer'', PInt 5)])"

definition charging_monitor :: monitor where
  "charging_monitor = init_monitor\<lparr> old_values :=
     alist_store [(''charge_state'', [(''charging_state'', PStr ''Charging'')])] \<rparr>"

definition stale_charge_monitor :: monitor where
  "stale_charge_monitor = init_monitor\<lparr> old_values :=
     alist_store [(''charge_state'', [(''timestamp'', PInt 100)]),
                  (''drive_state'', [(''timestamp'', PInt 100), (''shift_state'', PStr ''P'')])] \<rparr>"

definition fresh_drive_data :: "exn + response" where
  "fresh_drive_data = Inr (snapshot 100 200 [] [(''shift_state'', PStr ''D'')] [])"

definition parked_response :: response where
  "parked_response = snapshot 1 1 [(''charging_state'', PStr ''Complete'')]
     [(''shift_state'', PStr ''P'')] [(''odometer'', PInt 5)]"

definition driving_response :: response where
  "driving_response = snapshot 1 1 [(''charging_state'', PStr ''Disconnected'')]
     [(''shift_state'', PStr ''D'')] []"

section \<open>Properties of the model\<close>

lemma length_pollTimes: "length pollTimes = 18"
  by (simp add: pollTimes_def)

lemma pollTimes_pos: "\<forall>x \<in> set pollTimes. 0 < x"
  by (simp add: pollTimes_def)

lemma ladder_pos: "0 < ladder k"
proof -
  have "ladder k \<in> set pollTimes"
    unfolding ladder_def by (simp add: length_pollTimes)
  with pollTimes_pos show ?thesis by blast
qed

lemma poll_decision_charging:
  assumes "charging_state_lower (old_values m) = Inr ''charging''"
  shows "poll_decision cfg i any_change m =
           Inr (if fast_charger_present (old_values m) then 5 else 15, m)"
  using assms
  by (simp add: poll_decision_def charging_state_lower_def fast_charger_present_def
      py_bind_def Let_def)

lemma flag_unset_not_present:
  assumes "\<not> fast_charger_flag ov"
  shows "\<not> fast_charger_present ov"
  using assms
  by (cases "dict_get (ov ''charge_state'') ''fast_charger_present'' (PStr [])")
    (auto simp: fast_charger_flag_def fast_charger_present_def)

lemma poll_decision_changed:
  assumes "charging_state_lower (old_values m) = Inr cs" and "cs \<noteq> ''charging''"
  shows "poll_decision cfg i True m =
           Inr (a_awake_poll_secs cfg, m\<lparr> noChangesPollCount := 0 \<rparr>)"
  using assms
  by (simp add: poll_decision_def charging_state_lower_def py_bind_def Let_def)

lemma poll_decision_unchanged:
  assumes "charging_state_lower (old_values m) = Inr cs" and "cs \<noteq> ''charging''"
  shows "poll_decision cfg i False m =
           Inr (ladder (noChangesPollCount m),
                m\<lparr> noChangesPollCount := noChangesPollCount m + 1 \<rparr>)"
  using assms
  by (simp add: poll_decision_def charging_state_lower_def py_bind_def Let_def ladder_def)

lemma poll_decision_raises:
  assumes "charging_state_lower (old_values m) = Inl e"
  shows "poll_decision cfg i any_change m = Inl e"
  using assms
  by (simp add: poll_decision_def charging_state_lower_def py_bind_def Let_def)

lemma poll_decision_nonzero:
  assumes "poll_decision cfg i any_change m = Inr (i', m')" and "a_awake_poll_secs cfg \<noteq> 0"
  shows "i' \<noteq> 0"
proof (cases "charging_state_lower (old_values m)")
  case (Inl e)
  with assms show ?thesis by (simp add: poll_decision_raises)
next
  case (Inr cs)
  show ?thesis
  proof (cases "cs = ''charging''")
    case True
    with Inr assms show ?thesis by (auto simp: poll_decision_charging split: if_splits)
  next
    case False
    with Inr assms ladder_pos [of "noChangesPollCount m"] show ?thesis
      by (cases any_change) (auto simp: poll_decision_changed poll_decision_unchanged)
  qed
qed

lemma py_gt_raises: "py_gt x n = Inl e \<Longrightarrow> e = TypeError"
  by (auto simp: py_gt_def split: option.splits)

lemma py_lt_raises: "py_lt x n = Inl e \<Longrightarrow> e = TypeError"
  by (auto simp: py_lt_def split: option.splits)

lemma py_lower_raises: "py_lower x = Inl e \<Longrightarrow> e = AttributeError"
  by (auto simp: py_lower_def split: pyval.splits)

lemma ongoing_activity_status_raises:
  assumes "ongoing_activity_status now ov = Inl e"
  shows "e = TypeError \<or> e = AttributeError"
  using assms
  by (auto simp: ongoing_activity_status_def charging_status_def scheduled_status_def
      conditioning_status_def screen_status_def py_bind_def Let_def
      split: if_splits sum.splits option.splits
      dest: py_gt_raises py_lower_raises)

lemma process_element_raises:
  assumes "process_element element old_value new_value = Inl e"
  shows "e = TypeError"
  using assms
  by (auto simp: process_element_def validity_check_def a_validity_checks_def py_bind_def
      Let_def split: if_splits sum.splits dest: py_lt_raises)

lemma process_elements_raises:
  assumes "process_elements result elements old flds = Inl e"
  shows "e = TypeError \<or> e = KeyError"
  using assms
proof (induction elements arbitrary: old flds)
  case Nil
  then show ?case by simp
next
  case (Cons element rest)
  then show ?case
    by (auto simp: py_bind_def split: if_splits option.splits sum.splits outcome.splits
        dest: process_element_raises)
qed

lemma process_requests_raises:
  assumes "process_requests cfg r rs m = Inl e"
  shows "e = TypeError \<or> e = KeyError"
  using assms
proof (induction rs arbitrary: m)
  case Nil
  then show ?case by simp
next
  case (Cons request rest)
  then show ?case
    by (auto simp: py_bind_def split: if_splits option.splits sum.splits prod.splits
        dest: process_elements_raises)
qed

lemma request_state_group_raises:
  assumes "request_state_group cfg now vehicle_data m = Inl e"
  shows "vehicle_data = Inl e \<or> e = TypeError \<or> e = KeyError \<or> e = AttributeError"
  using assms
  by (auto simp: request_state_group_def py_bind_def split: sum.splits
      dest: process_requests_raises ongoing_activity_status_raises)

lemma activity_labels_lower: "\<forall>l \<in> set activity_labels. lower l = l"
  by code_simp

lemma ongoing_activity_status_labels:
  assumes "ongoing_activity_status now ov = Inr l"
  shows "l \<in> set activity_labels"
  using assms
  by (auto simp: ongoing_activity_status_def charging_status_def scheduled_status_def
      conditioning_status_def screen_status_def py_bind_def Let_def activity_labels_def
      split: if_splits sum.splits option.splits)

lemma request_state_group_returns:
  assumes "request_state_group cfg now vehicle_data m = Inr (b, m')"
  shows "\<exists>l. ongoing_activity_status now (old_values m') = Inr l \<and> b = (l \<noteq> ''idle'')"
proof -
  from assms obtain l where l: "ongoing_activity_status now (old_values m') = Inr l"
    and b: "b = (lower l \<noteq> ''idle'')"
    by (auto simp: request_state_group_def py_bind_def split: sum.splits)
  from l have "lower l = l"
    using activity_labels_lower ongoing_activity_status_labels by blast
  with l b show ?thesis by simp
qed

lemma reverse_or_drive_driving:
  assumes "reverse_or_drive ov"
  shows "ongoing_activity_status t ov = Inr ''driving''"
  using assms
  by (auto simp: reverse_or_drive_def shift_state_def ongoing_activity_status_def Let_def)

lemma check_states_fetched:
  assumes "request_state_group cfg now vehicle_data m = Inr (b, m')"
  shows "check_states cfg now vehicle_data i m =
           (if reverse_or_drive (old_values m')
            then poll_decision cfg (a_awake_poll_secs cfg) True m'
            else poll_decision cfg i b m')"
  using assms
  by (simp add: check_states_def reverse_or_drive_def shift_state_def Let_def)

lemma check_states_timeout:
  "check_states cfg now (Inl ContinuePollingError) i m =
     poll_decision cfg i False (m\<lparr> vehicle_state := ''asleep'' \<rparr>)"
  by (simp add: check_states_def request_state_group_def py_bind_def)

lemma fetched_monitor:
  assumes "map_sum id fst (request_state_group cfg now vehicle_data m) = Inr b"
  shows "request_state_group cfg now vehicle_data m
           = Inr (b, updated_monitor cfg now vehicle_data m)"
  using assms
  by (cases "request_state_group cfg now vehicle_data m") (auto simp: updated_monitor_def)

lemma idle_not_charging:
  assumes "ongoing_activity_status now ov = Inr ''idle''"
  shows "\<not> reverse_or_drive ov \<and> not_charging ov"
proof -
  from assms have gear: "\<not> reverse_or_drive ov"
    using reverse_or_drive_driving [of ov now] by auto
  from assms obtain cs where "charging_state_lower ov = Inr cs" and "cs \<noteq> ''charging''"
    by (auto simp: ongoing_activity_status_def charging_status_def charging_state_lower_def
        py_bind_def Let_def split: if_splits sum.splits)
  with gear show ?thesis by (simp add: not_charging_def)
qed

lemma not_charging_unchanged:
  assumes "not_charging (old_values m)"
  shows "poll_decision cfg i False m =
           Inr (ladder (noChangesPollCount m),
                m\<lparr> noChangesPollCount := noChangesPollCount m + 1 \<rparr>)"
  using assms
  by (auto simp: not_charging_def poll_decision_unchanged split: sum.splits)

lemma process_requests_count:
  assumes "process_requests cfg r rs m = Inr m'"
  shows "noChangesPollCount m' = noChangesPollCount m"
  using assms
proof (induction rs arbitrary: m)
  case Nil
  then show ?case by simp
next
  case (Cons request rest)
  then show ?case
    by (fastforce simp: py_bind_def split: if_splits option.splits sum.splits prod.splits)
qed

lemma request_state_group_count:
  assumes "request_state_group cfg now vehicle_data m = Inr (b, m')"
  shows "noChangesPollCount m' = noChangesPollCount m"
  using assms
  by (auto simp: request_state_group_def py_bind_def update_vehicle_from_response_def
      split: sum.splits dest: process_requests_count)

lemma unchanged_cycle_step:
  assumes "unchanged_cycle cfg (now, vehicle_data, i) m"
  shows "\<exists>m'. check_states cfg now vehicle_data i m = Inr (ladder (noChangesPollCount m), m')
              \<and> noChangesPollCount m' = noChangesPollCount m + 1"
proof (cases "request_state_group cfg now vehicle_data m")
  case (Inr p)
  obtain b m1 where p: "p = (b, m1)" by (cases p)
  with Inr assms have b: "\<not> b" by (simp add: unchanged_cycle_def)
  from request_state_group_returns [of cfg now vehicle_data m b m1] Inr p b
  have "ongoing_activity_status now (old_values m1) = Inr ''idle''" by auto
  then have "\<not> reverse_or_drive (old_values m1)" and "not_charging (old_values m1)"
    using idle_not_charging by blast+
  with Inr p b request_state_group_count [of cfg now vehicle_data m b m1] show ?thesis
    by (simp add: check_states_fetched not_charging_unchanged)
next
  case (Inl e)
  with assms have e: "e = ContinuePollingError" and nc: "not_charging (old_values m)"
    by (simp_all add: unchanged_cycle_def)
  from request_state_group_raises [OF Inl] e have "vehicle_data = Inl ContinuePollingError"
    by auto
  with nc show ?thesis
    by (simp add: check_states_timeout not_charging_unchanged)
qed

lemma run_unchanged:
  assumes "all_unchanged cfg cycles m"
  shows "\<exists>m'. run_cycles cfg cycles m =
           Inr (map ladder [noChangesPollCount m ..< noChangesPollCount m + length cycles], m')
         \<and> noChangesPollCount m' = noChangesPollCount m + length cycles"
  using assms
proof (induction cycles arbitrary: m)
  case Nil
  then show ?case by simp
next
  case (Cons c rest)
  obtain now vehicle_data i where c: "c = (now, vehicle_data, i)" by (cases c)
  from Cons.prems c have u: "unchanged_cycle cfg (now, vehicle_data, i) m" by simp
  from unchanged_cycle_step [OF u] obtain m1 where
    step: "check_states cfg now vehicle_data i m = Inr (ladder (noChangesPollCount m), m1)"
    and count: "noChangesPollCount m1 = noChangesPollCount m + 1"
    by blast
  from Cons.prems c step have "all_unchanged cfg rest m1" by simp
  from Cons.IH [OF this] obtain m2 where
    rest: "run_cycles cfg rest m1 =
        Inr (map ladder [noChangesPollCount m1 ..< noChangesPollCount m1 + length rest], m2)"
    and count2: "noChangesPollCount m2 = noChangesPollCount m1 + length rest"
    by blast
  have "[noChangesPollCount m ..< noChangesPollCount m + length (c # rest)]
          = noChangesPollCount m # [noChangesPollCount m1 ..< noChangesPollCount m1 + length rest]"
    using count by (simp add: upt_rec)
  with c step rest count count2 show ?case
    by (simp add: py_bind_def)
qed

lemma ladder_values:
  "map ladder [0 ..< 18] = pollTimes"
  by code_simp

lemma ladder_clamped: "ladder (18 + k) = 120"
  by (simp add: ladder_def pollTimes_def)


lemma check_states_changed:
  assumes "request_state_group cfg now vehicle_data m = Inr (b, m')"
    and "b \<or> reverse_or_drive (old_values m')" and "not_charging (old_values m')"
  shows "check_states cfg now vehicle_data i m =
           Inr (a_awake_poll_secs cfg, m'\<lparr> noChangesPollCount := 0 \<rparr>)"
proof -
  from assms(3) obtain cs where "charging_state_lower (old_values m') = Inr cs"
    and "cs \<noteq> ''charging''"
    by (auto simp: not_charging_def split: sum.splits)
  with assms(1,2) show ?thesis
    by (auto simp: check_states_fetched poll_decision_changed)
qed

section \<open>The claims\<close>

subsection \<open>C1: what request_state_group returns\<close>

text \<open>
  C1, as stated, fails in both directions. From the empty store a response that brings
  new values of fields that are not ignored (the odometer among them) is answered with
  False, since the car is idle; and a response that repeats the stored timestamps, so
  that no field is even compared, is answered with True, since the stored gear is D.
\<close>

theorem C1_counterexample:
  "spec_applyUpdate_changed (old_values init_monitor) parked_response
   \<and> map_sum id fst (request_state_group ex_cfg 0 (Inr parked_response) init_monitor) = Inr False
   \<and> \<not> spec_applyUpdate_changed
         (old_values (updated_monitor ex_cfg 0 (Inr driving_response) init_monitor))
         driving_response
   \<and> map_sum id fst (request_state_group ex_cfg 5 (Inr driving_response)
         (updated_monitor ex_cfg 0 (Inr driving_response) init_monitor)) = Inr True"
  by code_simp

text \<open>
  C1, amended. When \<^verbatim>\<open>request_state_group\<close> returns, the classifier has a label
  for the store as the call leaves it, and the value returned is True if and only if
  that label is not \<^verbatim>\<open>idle\<close>. Whether a field changed is not tracked.
\<close>

theorem C1_returns_activity:
  "request_state_group cfg now vehicle_data m = Inr (b, m') \<Longrightarrow>
   (\<exists>label. ongoing_activity_status now (old_values m') = Inr label \<and> b = (label \<noteq> ''idle''))"
  by (rule request_state_group_returns)

theorem C1_returns_activity_witness:
  "request_state_group ex_cfg 0 (Inr driving_response) init_monitor
     = Inr (True, updated_monitor ex_cfg 0 (Inr driving_response) init_monitor)
   \<and> ongoing_activity_status 0
       (old_values (updated_monitor ex_cfg 0 (Inr driving_response) init_monitor))
       \<noteq> Inr ''idle''"
proof -
  have "map_sum id fst (request_state_group ex_cfg 0 (Inr driving_response) init_monitor)
          = Inr True"
    by code_simp
  then have a: "request_state_group ex_cfg 0 (Inr driving_response) init_monitor
     = Inr (True, updated_monitor ex_cfg 0 (Inr driving_response) init_monitor)"
    by (rule fetched_monitor)
  from a C1_returns_activity [OF a] show ?thesis by auto
qed

subsection \<open>C2: a group with a repeated timestamp\<close>

text \<open>
  C2. The claim asks that a group whose timestamp is the stored one is skipped alone.
  The program leaves the loop instead: here the charge state repeats its timestamp 100,
  the drive state has moved from 100 to 200 and reports the gear D, and the call
  returns with the store as it was (the drive state still at 100, in P), nothing
  written, and the answer of an idle car.
\<close>

theorem C2_break_skips_later_groups:
  "request_state_group ex_cfg 0 fresh_drive_data stale_charge_monitor
     = Inr (False, stale_charge_monitor\<lparr> vehicle_state := ''online'',
                                          vehicle_display_name := ''car'' \<rparr>)"
proof -
  let ?r = "snapshot 100 200 [] [(''shift_state'', PStr ''D'')] []"
  let ?m = "stale_charge_monitor\<lparr> vehicle_state := ''online'', vehicle_display_name := ''car'' \<rparr>"
  have vehicle: "update_vehicle_from_response ?r stale_charge_monitor = ?m"
    by (simp add: update_vehicle_from_response_def snapshot_def)
  have loop: "process_requests ex_cfg ?r requests ?m = Inr ?m"
    by (simp add: requests_def snapshot_def stale_charge_monitor_def alist_store_def
        dict_get_def)
  have label: "ongoing_activity_status 0 (old_values stale_charge_monitor) = Inr ''idle''"
    by code_simp
  have idle: "lower ''idle'' = ''idle''"
    by code_simp
  show ?thesis
    by (simp add: request_state_group_def fresh_drive_data_def py_bind_def vehicle loop label
        idle)
qed

subsection \<open>C3: driving\<close>

text \<open>
  C3. The claim has the interval of a cycle with the gear in D or R equal to
  \<^verbatim>\<open>a_awake_poll_secs\<close>, whatever the charging fields say. \<^verbatim>\<open>check_states\<close> sets
  the interval so for R and D, and the test of the charging state that follows
  overwrites it: with the gear in D and the charging state Charging the classifier
  answers driving, and \<^verbatim>\<open>check_states\<close> returns 15 where \<^verbatim>\<open>a_awake_poll_secs\<close> is 2.
\<close>

theorem C3_driving_while_charging:
  "map_sum id fst (request_state_group ex_cfg 0 driving_charging_data init_monitor) = Inr True
   \<and> reverse_or_drive (old_values (updated_monitor ex_cfg 0 driving_charging_data init_monitor))
   \<and> ongoing_activity_status 0
       (old_values (updated_monitor ex_cfg 0 driving_charging_data init_monitor)) = Inr ''driving''
   \<and> a_awake_poll_secs ex_cfg = 2
   \<and> map_sum id fst (check_states ex_cfg 0 driving_charging_data 60 init_monitor) = Inr 15"
  by code_simp

subsection \<open>C4: a timeout\<close>

text \<open>
  C4, as stated, fails: after a timeout with a previous interval of 60 the call returns
  2, the first value of the ladder.
\<close>

theorem C4_counterexample:
  "map_sum id fst (check_states ex_cfg 1000 (Inl ContinuePollingError) 60 init_monitor) = Inr 2"
  by code_simp

text \<open>
  C4, amended. On a timeout the vehicle is marked asleep, the store is left as it is
  and the interval is chosen as in a cycle without changes: when the stored charging
  state is \<^verbatim>\<open>charging\<close> it is 5 or 15 and the count stays; otherwise the value of
  the ladder at the count is returned and the count goes up by one. The previous
  interval is not kept.
\<close>

theorem C4_timeout:
  "charging_state_lower (old_values m) = Inr cs \<Longrightarrow>
   check_states cfg now (Inl ContinuePollingError) i m =
     (if cs = ''charging''
      then Inr (if fast_charger_present (old_values m) then 5 else 15,
                m\<lparr> vehicle_state := ''asleep'' \<rparr>)
      else Inr (ladder (noChangesPollCount m),
                m\<lparr> vehicle_state := ''asleep'',
                   noChangesPollCount := noChangesPollCount m + 1 \<rparr>))"
  by (simp add: check_states_timeout poll_decision_charging poll_decision_unchanged)

theorem C4_timeout_witness:
  "charging_state_lower (old_values init_monitor) = Inr []
   \<and> check_states ex_cfg 1000 (Inl ContinuePollingError) 60 init_monitor
       = Inr (2, init_monitor\<lparr> vehicle_state := ''asleep'', noChangesPollCount := 1 \<rparr>)
   \<and> charging_state_lower (old_values charging_monitor) = Inr ''charging''
   \<and> check_states ex_cfg 1000 (Inl ContinuePollingError) 60 charging_monitor
       = Inr (15, charging_monitor\<lparr> vehicle_state := ''asleep'' \<rparr>)"
proof -
  have a: "charging_state_lower (old_values init_monitor) = Inr []"
    by code_simp
  have b: "charging_state_lower (old_values charging_monitor) = Inr ''charging''"
    by code_simp
  have c: "\<not> fast_charger_present (old_values charging_monitor)"
    by code_simp
  have d: "ladder (noChangesPollCount init_monitor) = 2"
    by code_simp
  have e: "noChangesPollCount init_monitor = 0"
    by (simp add: init_monitor_def)
  from a b c d e
    C4_timeout [where m = init_monitor and cs = "[]" and cfg = ex_cfg and now = 1000 and i = 60]
    C4_timeout [where m = charging_monitor and cs = "''charging''" and cfg = ex_cfg
      and now = 1000 and i = 60]
  show ?thesis by simp
qed

subsection \<open>C5: the ladder\<close>

text \<open>
  C5, as stated, fails: the second cycle below is a cycle with changes (the car is
  charging, \<^verbatim>\<open>request_state_group\<close> answers True), the third is unchanged and is the
  whole run, and the interval it returns is 5, the second value of the ladder, not 2:
  a cycle with the charging state \<^verbatim>\<open>charging\<close> does not reset the count.
\<close>

theorem C5_counterexample:
  "map_sum id fst (run_cycles ex_cfg
      [(0, parked_data 1, 2), (10, charging_data 2, 2), (20, parked_data 3, 15)] init_monitor)
     = Inr [2, 15, 5]
   \<and> map_sum id fst (request_state_group ex_cfg 10 (charging_data 2)
        (monitor_after ex_cfg [(0, parked_data 1, 2)] init_monitor)) = Inr True
   \<and> unchanged_cycle ex_cfg (20, parked_data 3, 15)
        (monitor_after ex_cfg [(0, parked_data 1, 2), (10, charging_data 2, 2)] init_monitor)"
  by code_simp

text \<open>
  C5, amended. A run of consecutive unchanged cycles that starts with the count \<open>c\<close>
  returns the values of the ladder from index \<open>c\<close> on, in order; the ladder is the
  list of \<^verbatim>\<open>pollTimes\<close> followed by 120 for ever; and a cycle with changes whose
  stored charging state is not \<^verbatim>\<open>charging\<close> returns \<^verbatim>\<open>a_awake_poll_secs\<close> and
  sets the count to 0, so that the next unchanged cycle returns 2.
\<close>

theorem C5_ladder:
  "(all_unchanged cfg cycles m \<longrightarrow>
      map_sum id fst (run_cycles cfg cycles m) =
        Inr (map ladder [noChangesPollCount m ..< noChangesPollCount m + length cycles]))
   \<and> map ladder [0 ..< 18] =
        [2, 5, 15, 30, 45, 60, 120, 120, 120, 120, 120, 120, 120, 120, 120, 120, 2000, 120]
   \<and> ladder (18 + k) = 120
   \<and> (request_state_group cfg now vehicle_data m = Inr (b, m') \<longrightarrow>
        b \<or> reverse_or_drive (old_values m') \<longrightarrow> not_charging (old_values m') \<longrightarrow>
        check_states cfg now vehicle_data i m
          = Inr (a_awake_poll_secs cfg, m'\<lparr> noChangesPollCount := 0 \<rparr>))"
proof (intro conjI impI)
  assume "all_unchanged cfg cycles m"
  from run_unchanged [OF this]
  show "map_sum id fst (run_cycles cfg cycles m) =
        Inr (map ladder [noChangesPollCount m ..< noChangesPollCount m + length cycles])"
    by auto
next
  show "map ladder [0 ..< 18] =
        [2, 5, 15, 30, 45, 60, 120, 120, 120, 120, 120, 120, 120, 120, 120, 120, 2000, 120]"
    using ladder_values by (simp add: pollTimes_def)
next
  show "ladder (18 + k) = 120" by (rule ladder_clamped)
next
  assume "request_state_group cfg now vehicle_data m = Inr (b, m')"
    and "b \<or> reverse_or_drive (old_values m')" and "not_charging (old_values m')"
  then show "check_states cfg now vehicle_data i m
          = Inr (a_awake_poll_secs cfg, m'\<lparr> noChangesPollCount := 0 \<rparr>)"
    by (rule check_states_changed)
qed

theorem C5_ladder_witness:
  "all_unchanged ex_cfg [(0, parked_data 1, 2), (10, Inl ContinuePollingError, 2)] init_monitor
   \<and> map_sum id fst
        (run_cycles ex_cfg [(0, parked_data 1, 2), (10, Inl ContinuePollingError, 2)] init_monitor)
       = Inr [2, 5]
   \<and> ladder (18 + 3) = 120
   \<and> request_state_group ex_cfg 0 driving_data init_monitor
       = Inr (True, updated_monitor ex_cfg 0 driving_data init_monitor)
   \<and> not_charging (old_values (updated_monitor ex_cfg 0 driving_data init_monitor))
   \<and> check_states ex_cfg 0 driving_data 60 init_monitor
       = Inr (2, (updated_monitor ex_cfg 0 driving_data init_monitor)\<lparr> noChangesPollCount := 0 \<rparr>)"
proof -
  have a: "all_unchanged ex_cfg [(0, parked_data 1, 2), (10, Inl ContinuePollingError, 2)]
             init_monitor"
    by code_simp
  have "map_sum id fst (request_state_group ex_cfg 0 driving_data init_monitor) = Inr True"
    by code_simp
  then have b: "request_state_group ex_cfg 0 driving_data init_monitor
       = Inr (True, updated_monitor ex_cfg 0 driving_data init_monitor)"
    by (rule fetched_monitor)
  have c: "not_charging (old_values (updated_monitor ex_cfg 0 driving_data init_monitor))"
    by code_simp
  have d: "a_awake_poll_secs ex_cfg = 2"
    by (simp add: ex_cfg_def)
  have e: "noChangesPollCount init_monitor = 0"
    by (simp add: init_monitor_def)
  have f: "ladder 0 = 2" and g: "ladder (Suc 0) = 5"
    by code_simp+
  from a b c d e f g
    C5_ladder [where cfg = ex_cfg
      and cycles = "[(0, parked_data 1, 2), (10, Inl ContinuePollingError, 2)]"
      and m = init_monitor and k = 3 and now = 0 and vehicle_data = driving_data and b = True
      and m' = "updated_monitor ex_cfg 0 driving_data init_monitor" and i = 60]
  show ?thesis by simp
qed

subsection \<open>C6: the charging intervals\<close>

text \<open>
  C6, as stated, fails: with the charging state Starting and the gear in P the
  classifier answers charging, and \<^verbatim>\<open>check_states\<close> returns \<^verbatim>\<open>a_awake_poll_secs\<close>
  (2 here), neither 5 nor 15.
\<close>

theorem C6_counterexample:
  "map_sum id fst (request_state_group ex_cfg 0 starting_data init_monitor) = Inr True
   \<and> ongoing_activity_status 0
       (old_values (updated_monitor ex_cfg 0 starting_data init_monitor)) = Inr ''charging''
   \<and> \<not> reverse_or_drive (old_values (updated_monitor ex_cfg 0 starting_data init_monitor))
   \<and> a_awake_poll_secs ex_cfg = 2
   \<and> map_sum id fst (check_states ex_cfg 0 starting_data 60 init_monitor) = Inr 2"
  by code_simp

text \<open>
  C6, amended. When \<^verbatim>\<open>request_state_group\<close> returns with a store whose gear is
  neither R nor D: if the stored charging state is \<^verbatim>\<open>charging\<close> (in any case of
  letters), \<^verbatim>\<open>check_states\<close> returns one of the two charging intervals, 5 or 15,
  leaves the count alone, and returns 15 when the fast charger flag is not set; in
  every other state the classifier labels charging it returns
  \<^verbatim>\<open>a_awake_poll_secs\<close> and sets the count to 0. Which of 5 and 15 is returned when
  the flag is set is not part of the statement.
\<close>

theorem C6_charging:
  "request_state_group cfg now vehicle_data m = Inr (b, m') \<Longrightarrow>
   \<not> reverse_or_drive (old_values m') \<Longrightarrow>
   charging_state_lower (old_values m') = Inr cs \<Longrightarrow>
   (cs = ''charging'' \<longrightarrow>
      (check_states cfg now vehicle_data i m = Inr (5, m')
       \<or> check_states cfg now vehicle_data i m = Inr (15, m'))
      \<and> (\<not> fast_charger_flag (old_values m') \<longrightarrow>
           check_states cfg now vehicle_data i m = Inr (15, m')))
   \<and> (cs \<noteq> ''charging'' \<longrightarrow> ongoing_activity_status now (old_values m') = Inr ''charging'' \<longrightarrow>
      check_states cfg now vehicle_data i m
        = Inr (a_awake_poll_secs cfg, m'\<lparr> noChangesPollCount := 0 \<rparr>))"
proof (intro conjI impI)
  assume rsg: "request_state_group cfg now vehicle_data m = Inr (b, m')"
    and gear: "\<not> reverse_or_drive (old_values m')"
    and cs: "charging_state_lower (old_values m') = Inr cs"
  {
    assume "cs = ''charging''"
    with rsg gear cs
    have tier: "check_states cfg now vehicle_data i m
        = Inr (if fast_charger_present (old_values m') then 5 else 15, m')"
      by (simp add: check_states_fetched poll_decision_charging)
    then show "check_states cfg now vehicle_data i m = Inr (5, m')
       \<or> check_states cfg now vehicle_data i m = Inr (15, m')"
      by (cases "fast_charger_present (old_values m')") simp_all
    {
      assume "\<not> fast_charger_flag (old_values m')"
      with tier show "check_states cfg now vehicle_data i m = Inr (15, m')"
        by (simp add: flag_unset_not_present)
    }
  next
    assume other: "cs \<noteq> ''charging''"
      and label: "ongoing_activity_status now (old_values m') = Inr ''charging''"
    from request_state_group_returns [OF rsg] label have b by simp
    with rsg gear cs other
    show "check_states cfg now vehicle_data i m
        = Inr (a_awake_poll_secs cfg, m'\<lparr> noChangesPollCount := 0 \<rparr>)"
      by (simp add: check_states_fetched poll_decision_changed)
  }
qed

theorem C6_charging_witness:
  "request_state_group ex_cfg 0 slow_charging_data init_monitor
       = Inr (True, updated_monitor ex_cfg 0 slow_charging_data init_monitor)
   \<and> \<not> reverse_or_drive (old_values (updated_monitor ex_cfg 0 slow_charging_data init_monitor))
   \<and> charging_state_lower (old_values (updated_monitor ex_cfg 0 slow_charging_data init_monitor))
       = Inr ''charging''
   \<and> \<not> fast_charger_flag (old_values (updated_monitor ex_cfg 0 slow_charging_data init_monitor))
   \<and> check_states ex_cfg 0 slow_charging_data 60 init_monitor
       = Inr (15, updated_monitor ex_cfg 0 slow_charging_data init_monitor)
   \<and> request_state_group ex_cfg 0 starting_data init_monitor
       = Inr (True, updated_monitor ex_cfg 0 starting_data init_monitor)
   \<and> \<not> reverse_or_drive (old_values (updated_monitor ex_cfg 0 starting_data init_monitor))
   \<and> charging_state_lower (old_values (updated_monitor ex_cfg 0 starting_data init_monitor))
       = Inr ''starting''
   \<and> ongoing_activity_status 0
       (old_values (updated_monitor ex_cfg 0 starting_data init_monitor)) = Inr ''charging''
   \<and> check_states ex_cfg 0 starting_data 60 init_monitor
       = Inr (2, (updated_monitor ex_cfg 0 starting_data init_monitor)
                   \<lparr> noChangesPollCount := 0 \<rparr>)"
proof -
  have "map_sum id fst (request_state_group ex_cfg 0 slow_charging_data init_monitor) = Inr True"
    by code_simp
  then have a: "request_state_group ex_cfg 0 slow_charging_data init_monitor
       = Inr (True, updated_monitor ex_cfg 0 slow_charging_data init_monitor)"
    by (rule fetched_monitor)
  have b: "\<not> reverse_or_drive (old_values (updated_monitor ex_cfg 0 slow_charging_data init_monitor))"
    by code_simp
  have c: "charging_state_lower (old_values (updated_monitor ex_cfg 0 slow_charging_data init_monitor))
       = Inr ''charging''"
    by code_simp
  have d: "\<not> fast_charger_flag (old_values (updated_monitor ex_cfg 0 slow_charging_data init_monitor))"
    by code_simp
  have "map_sum id fst (request_state_group ex_cfg 0 starting_data init_monitor) = Inr True"
    by code_simp
  then have e: "request_state_group ex_cfg 0 starting_data init_monitor
       = Inr (True, updated_monitor ex_cfg 0 starting_data init_monitor)"
    by (rule fetched_monitor)
  have f: "\<not> reverse_or_drive (old_values (updated_monitor ex_cfg 0 starting_data init_monitor))"
    by code_simp
  have g: "charging_state_lower (old_values (updated_monitor ex_cfg 0 starting_data init_monitor))
       = Inr ''starting''"
    by code_simp
  have h: "ongoing_activity_status 0
       (old_values (updated_monitor ex_cfg 0 starting_data init_monitor)) = Inr ''charging''"
    by code_simp
  have k: "a_awake_poll_secs ex_cfg = 2"
    by (simp add: ex_cfg_def)
  from d C6_charging [OF a b c, where i = 60]
  have first: "check_states ex_cfg 0 slow_charging_data 60 init_monitor
       = Inr (15, updated_monitor ex_cfg 0 slow_charging_data init_monitor)"
    by simp
  from h k C6_charging [OF e f g, where i = 60]
  have second: "check_states ex_cfg 0 starting_data 60 init_monitor
       = Inr (2, (updated_monitor ex_cfg 0 starting_data init_monitor)
                   \<lparr> noChangesPollCount := 0 \<rparr>)"
    by simp
  from a b c d e f g h first second show ?thesis by simp
qed

subsection \<open>C7: the clamp against the forced wake-up\<close>

text \<open>
  C7. The claim has the sleep of every cycle shrunk to what is left until the forced
  wake-up. The program subtracts the clock from \<open>next_wakeup\<close> also when the forced
  wake-up already lies in the past: at clock value 2000, with the forced wake-up due at
  1950 and an interval of 120, the duration is -50, \<^verbatim>\<open>time.sleep\<close> raises
  ValueError and nothing is slept. With the forced wake-up ahead, at 2030, the program
  sleeps 30, as the claim says.
\<close>

theorem C7_past_deadline:
  "clamp_poll_interval 2000 2000 1950 120 = - 50
   \<and> sleep_as_needed 2000 2000 1950 (Some 120) = Inl ValueError
   \<and> sleep_as_needed 2000 2000 2030 (Some 120) = Inr (Some 30)"
  by (simp add: clamp_poll_interval_def sleep_as_needed_def time_sleep_def py_bind_def)

subsection \<open>C8: calculate_next_wakeup\<close>

text \<open>
  C8. The claim has the start time of a pending scheduled charge preferred only when
  it lies in the future. The program tests the start time against 0, not against the
  clock: at clock value 1000, with \<^verbatim>\<open>a_maximum_sleep\<close> 100, a pending start time of
  500 is returned as the deadline where the claim gives 1100, and the end of the same
  cycle then asks for a sleep of a negative duration, which raises ValueError. A start
  time ahead of the clock, 1050, is returned as the claim says, and so is
  \<open>now + a_maximum_sleep\<close> when no charge is pending.
\<close>

theorem C8_past_start_time:
  "calculate_next_wakeup ex_cfg 1000 0 (scheduled_store 500) = Inr 500
   \<and> sleep_as_needed 1000 1000 500 (Some 2) = Inl ValueError
   \<and> calculate_next_wakeup ex_cfg 1000 0 (scheduled_store 1050) = Inr 1050
   \<and> calculate_next_wakeup ex_cfg 1000 0 (old_values init_monitor) = Inr 1100"
  by code_simp

subsection \<open>C9: an interval of 0\<close>

text \<open>
  C9, as stated, fails: in a cycle at clock value 1000 whose forced wake-up is due at
  1000, \<^verbatim>\<open>check_states\<close> returns 2 and the clamp turns it into a sleep of 0 seconds.
\<close>

theorem C9_counterexample:
  "map_sum id fst (check_states ex_cfg 1000 (Inl ContinuePollingError) 30 init_monitor) = Inr 2
   \<and> sleep_as_needed 1000 1000 1000 (Some 2) = Inr (Some 0)"
  by code_simp

text \<open>
  C9, amended. Unless the request to the vehicle fails with an API error, the interval
  \<^verbatim>\<open>check_states\<close> returns is not 0 when \<^verbatim>\<open>a_awake_poll_secs\<close> is not 0. The clamp
  at the end of the cycle substitutes nothing: the duration slept is 0 exactly when the
  clamp applies and \<open>next_wakeup\<close> is \<open>now\<close>, or the clamp does not apply and the
  interval is 0.
\<close>

theorem C9_zero_interval:
  "(a_awake_poll_secs cfg \<noteq> 0 \<longrightarrow> vehicle_data \<noteq> Inl HTTPError \<longrightarrow>
      check_states cfg now vehicle_data i m = Inr (i', m') \<longrightarrow> i' \<noteq> 0)
   \<and> (sleep_as_needed now now next_wakeup (Some j) = Inr (Some d) \<longrightarrow>
        (d = 0) = (if now + j > next_wakeup then next_wakeup = now else j = 0))"
proof (intro conjI impI)
  assume awake: "a_awake_poll_secs cfg \<noteq> 0" and vd: "vehicle_data \<noteq> Inl HTTPError"
    and cs: "check_states cfg now vehicle_data i m = Inr (i', m')"
  show "i' \<noteq> 0"
  proof (cases "request_state_group cfg now vehicle_data m")
    case (Inr p)
    with cs awake show ?thesis
      by (cases p) (auto simp: check_states_def Let_def split: if_splits
          dest: poll_decision_nonzero)
  next
    case (Inl e)
    from request_state_group_raises [OF Inl] vd have "e \<noteq> HTTPError"
      by auto
    with Inl cs awake show ?thesis
      by (cases e) (auto simp: check_states_def dest: poll_decision_nonzero)
  qed
next
  assume "sleep_as_needed now now next_wakeup (Some j) = Inr (Some d)"
  then show "(d = 0) = (if now + j > next_wakeup then next_wakeup = now else j = 0)"
    by (auto simp: sleep_as_needed_def clamp_poll_interval_def time_sleep_def py_bind_def
        split: if_splits)
qed

theorem C9_zero_interval_witness:
  "a_awake_poll_secs ex_cfg \<noteq> 0
   \<and> (Inl ContinuePollingError :: exn + response) \<noteq> Inl HTTPError
   \<and> check_states ex_cfg 1000 (Inl ContinuePollingError) 30 init_monitor
       = Inr (2, init_monitor\<lparr> vehicle_state := ''asleep'', noChangesPollCount := 1 \<rparr>)
   \<and> (2::int) \<noteq> 0
   \<and> sleep_as_needed 1000 1000 1000 (Some 120) = Inr (Some 0)
   \<and> 1000 + 120 > (1000::int)"
proof -
  have a: "a_awake_poll_secs ex_cfg \<noteq> 0"
    by (simp add: ex_cfg_def)
  have b: "check_states ex_cfg 1000 (Inl ContinuePollingError) 30 init_monitor
       = Inr (2, init_monitor\<lparr> vehicle_state := ''asleep'', noChangesPollCount := 1 \<rparr>)"
    by (simp add: check_states_def request_state_group_def poll_decision_def py_bind_def
        py_lower_def lower_def dict_get_def init_monitor_def pollTimes_def)
  have c: "sleep_as_needed 1000 1000 1000 (Some 120) = Inr (Some 0)"
    by (simp add: sleep_as_needed_def clamp_poll_interval_def time_sleep_def py_bind_def)
  from a b c
    C9_zero_interval [where cfg = ex_cfg and vehicle_data = "Inl ContinuePollingError"
      and now = 1000 and i = 30 and m = init_monitor and i' = 2
      and m' = "init_monitor\<lparr> vehicle_state := ''asleep'', noChangesPollCount := 1 \<rparr>"
      and next_wakeup = 1000 and j = 120 and d = 0]
  show ?thesis by simp
qed

subsection \<open>C10: the classifier and the clock\<close>

text \<open>
  C10, as stated, fails: with a scheduled charge pending for 1000, the same store is
  classified as charging at clock value 1000 and as idle at clock value 2000.
\<close>

theorem C10_counterexample:
  "ongoing_activity_status 1000 (scheduled_store 1000) = Inr ''charging''
   \<and> ongoing_activity_status 2000 (scheduled_store 1000) = Inr ''idle''"
  by code_simp

text \<open>
  C10, amended. The classifier is a function of the store and the clock. For a fixed
  store, evaluations at two clock values give the same result when no scheduled charge
  is pending, when the scheduled start time is not a number, or when both clock values
  are within 2 seconds of the scheduled start time or both are not.
\<close>

theorem C10_classify_time:
  "(\<not> scheduled_charging_pending ov \<longrightarrow>
      ongoing_activity_status t1 ov = ongoing_activity_status t2 ov)
   \<and> (py_num (scheduled_charging_start_time ov) = None \<longrightarrow>
      ongoing_activity_status t1 ov = ongoing_activity_status t2 ov)
   \<and> (py_num (scheduled_charging_start_time ov) = Some s \<longrightarrow>
        (\<bar>s - t1\<bar> \<le> 2) = (\<bar>s - t2\<bar> \<le> 2) \<longrightarrow>
      ongoing_activity_status t1 ov = ongoing_activity_status t2 ov)"
  by (simp add: ongoing_activity_status_def charging_status_def scheduled_status_def
      scheduled_charging_pending_def scheduled_charging_start_time_def py_bind_def Let_def
      split: sum.splits)

theorem C10_classify_time_witness:
  "\<not> scheduled_charging_pending (old_values init_monitor)
   \<and> ongoing_activity_status 0 (old_values init_monitor)
       = ongoing_activity_status 5000 (old_values init_monitor)
   \<and> py_num (scheduled_charging_start_time pending_without_time) = None
   \<and> ongoing_activity_status 0 pending_without_time
       = ongoing_activity_status 5000 pending_without_time
   \<and> py_num (scheduled_charging_start_time (scheduled_store 1000)) = Some 1000
   \<and> (\<bar>1000 - 999\<bar> \<le> (2::int)) = (\<bar>1000 - 1001\<bar> \<le> (2::int))
   \<and> ongoing_activity_status 999 (scheduled_store 1000)
       = ongoing_activity_status 1001 (scheduled_store 1000)"
proof -
  have a: "\<not> scheduled_charging_pending (old_values init_monitor)"
    by (simp add: scheduled_charging_pending_def init_monitor_def dict_get_def)
  have b: "py_num (scheduled_charging_start_time pending_without_time) = None"
    by (simp add: scheduled_charging_start_time_def pending_without_time_def alist_store_def
        dict_get_def)
  have c: "py_num (scheduled_charging_start_time (scheduled_store 1000)) = Some 1000"
    by (simp add: scheduled_charging_start_time_def scheduled_store_def alist_store_def
        dict_get_def)
  from a b c
    C10_classify_time [where ov = "old_values init_monitor" and ?t1.0 = 0 and ?t2.0 = 5000]
    C10_classify_time [where ov = pending_without_time and ?t1.0 = 0 and ?t2.0 = 5000]
    C10_classify_time [where ov = "scheduled_store 1000" and ?t1.0 = 999 and ?t2.0 = 1001
      and s = 1000]
  show ?thesis by simp
qed

end
